theory Spec2Isabelle
  imports Complex_Main "HOL-Library.AList"
begin

section \<open>JavaScript numbers\<close>

text \<open>
  A JavaScript number is an IEEE-754 double. A finite double is modelled by the real
  number it denotes, so rounding and overflow of finite arithmetic are not modelled and
  the negative zero is identified with zero. The three special values are explicit, with
  the arithmetic, the comparisons and the truthiness JavaScript gives them.
\<close>

datatype jsnum = Fin real | PosInf | NegInf | NaN

fun js_neg :: "jsnum \<Rightarrow> jsnum" where
  "js_neg (Fin a) = Fin (- a)"
| "js_neg PosInf = NegInf"
| "js_neg NegInf = PosInf"
| "js_neg NaN = NaN"

fun js_add :: "jsnum \<Rightarrow> jsnum \<Rightarrow> jsnum" where
  "js_add NaN _ = NaN"
| "js_add _ NaN = NaN"
| "js_add (Fin a) (Fin b) = Fin (a + b)"
| "js_add PosInf NegInf = NaN"
| "js_add NegInf PosInf = NaN"
| "js_add PosInf _ = PosInf"
| "js_add _ PosInf = PosInf"
| "js_add NegInf _ = NegInf"
| "js_add _ NegInf = NegInf"

definition js_sub :: "jsnum \<Rightarrow> jsnum \<Rightarrow> jsnum" where
  "js_sub a b = js_add a (js_neg b)"

fun js_mul :: "jsnum \<Rightarrow> jsnum \<Rightarrow> jsnum" where
  "js_mul NaN _ = NaN"
| "js_mul _ NaN = NaN"
| "js_mul (Fin a) (Fin b) = Fin (a * b)"
| "js_mul (Fin a) PosInf = (if a = 0 then NaN else if 0 < a then PosInf else NegInf)"
| "js_mul (Fin a) NegInf = (if a = 0 then NaN else if 0 < a then NegInf else PosInf)"
| "js_mul PosInf (Fin b) = (if b = 0 then NaN else if 0 < b then PosInf else NegInf)"
| "js_mul NegInf (Fin b) = (if b = 0 then NaN else if 0 < b then NegInf else PosInf)"
| "js_mul PosInf PosInf = PosInf"
| "js_mul PosInf NegInf = NegInf"
| "js_mul NegInf PosInf = NegInf"
| "js_mul NegInf NegInf = PosInf"

text \<open>Division: a zero divisor counts as the positive zero.\<close>

fun js_div :: "jsnum \<Rightarrow> jsnum \<Rightarrow> jsnum" where
  "js_div NaN _ = NaN"
| "js_div _ NaN = NaN"
| "js_div (Fin a) (Fin b) =
     (if b = 0 then (if a = 0 then NaN else if 0 < a then PosInf else NegInf)
      else Fin (a / b))"
| "js_div (Fin a) PosInf = Fin 0"
| "js_div (Fin a) NegInf = Fin 0"
| "js_div PosInf (Fin b) = (if 0 \<le> b then PosInf else NegInf)"
| "js_div NegInf (Fin b) = (if 0 \<le> b then NegInf else PosInf)"
| "js_div PosInf PosInf = NaN"
| "js_div PosInf NegInf = NaN"
| "js_div NegInf PosInf = NaN"
| "js_div NegInf NegInf = NaN"

text \<open>\<open>a < b\<close>; every comparison with \<open>NaN\<close> is false.\<close>

fun js_lt :: "jsnum \<Rightarrow> jsnum \<Rightarrow> bool" where
  "js_lt NaN _ = False"
| "js_lt _ NaN = False"
| "js_lt (Fin a) (Fin b) = (a < b)"
| "js_lt NegInf NegInf = False"
| "js_lt NegInf _ = True"
| "js_lt _ NegInf = False"
| "js_lt PosInf _ = False"
| "js_lt _ PosInf = True"

text \<open>\<open>a === b\<close> and \<open>a !== b\<close> on numbers: \<open>NaN\<close> is not equal to itself.\<close>

definition js_seq :: "jsnum \<Rightarrow> jsnum \<Rightarrow> bool" where
  "js_seq a b = (a \<noteq> NaN \<and> a = b)"

definition js_sneq :: "jsnum \<Rightarrow> jsnum \<Rightarrow> bool" where
  "js_sneq a b = (\<not> js_seq a b)"

definition js_le :: "jsnum \<Rightarrow> jsnum \<Rightarrow> bool" where
  "js_le a b = (js_lt a b \<or> js_seq a b)"

definition js_gt :: "jsnum \<Rightarrow> jsnum \<Rightarrow> bool" where
  "js_gt a b = js_lt b a"


text \<open>Truthiness of a number: \<open>0\<close> and \<open>NaN\<close> are falsy.\<close>

fun js_truthy :: "jsnum \<Rightarrow> bool" where
  "js_truthy (Fin a) = (a \<noteq> 0)"
| "js_truthy NaN = False"
| "js_truthy _ = True"

fun Math_abs :: "jsnum \<Rightarrow> jsnum" where
  "Math_abs (Fin a) = Fin \<bar>a\<bar>"
| "Math_abs NaN = NaN"
| "Math_abs _ = PosInf"

definition Math_min :: "jsnum \<Rightarrow> jsnum \<Rightarrow> jsnum" where
  "Math_min a b = (if a = NaN \<or> b = NaN then NaN else if js_lt b a then b else a)"

definition Math_max :: "jsnum \<Rightarrow> jsnum \<Rightarrow> jsnum" where
  "Math_max a b = (if a = NaN \<or> b = NaN then NaN else if js_lt a b then b else a)"

text \<open>\<open>Math.max(...xs)\<close>: \<open>-Infinity\<close> for no argument, \<open>NaN\<close> as soon as one is.\<close>

definition Math_max_spread :: "jsnum list \<Rightarrow> jsnum" where
  "Math_max_spread xs = foldl Math_max NegInf xs"


section \<open>Strings\<close>

text \<open>
  Strings are lists of 8-bit characters, a line being the bytes of its UTF-8 text.
  \<open>toLowerCase\<close> maps the ASCII capitals to their small letters and leaves every other
  character as it is; white space is the ASCII white space. The exchange format is an
  ASCII format, and text outside ASCII is read by this model character for character.
\<close>

definition lower_char :: "char \<Rightarrow> char" where
  "lower_char c =
     (let n = (of_char c :: nat) in if 65 \<le> n \<and> n \<le> 90 then char_of (n + 32) else c)"

definition toLowerCase :: "string \<Rightarrow> string" where
  "toLowerCase s = map lower_char s"

fun starts_with :: "string \<Rightarrow> string \<Rightarrow> bool" where
  "starts_with s [] = True"
| "starts_with [] (t # ts) = False"
| "starts_with (c # cs) (t # ts) = (c = t \<and> starts_with cs ts)"

text \<open>\<open>s.includes(t)\<close>.\<close>

fun js_includes :: "string \<Rightarrow> string \<Rightarrow> bool" where
  "js_includes [] t = (t = [])"
| "js_includes (c # cs) t = (starts_with (c # cs) t \<or> js_includes cs t)"

definition is_space :: "char \<Rightarrow> bool" where
  "is_space c = (let n = (of_char c :: nat) in (9 \<le> n \<and> n \<le> 13) \<or> n = 32)"

definition is_digit :: "char \<Rightarrow> bool" where
  "is_digit c = (let n = (of_char c :: nat) in 48 \<le> n \<and> n \<le> 57)"

text \<open>\<open>s.trim()\<close>.\<close>

definition trim :: "string \<Rightarrow> string" where
  "trim s = rev (dropWhile is_space (rev (dropWhile is_space s)))"

text \<open>\<open>s.split(sep)\<close> for a separator of one character: never an empty array.\<close>

fun split_on :: "char \<Rightarrow> string \<Rightarrow> string list" where
  "split_on sep [] = [[]]"
| "split_on sep (c # cs) =
     (if c = sep then [] # split_on sep cs
      else (case split_on sep cs of [] \<Rightarrow> [[c]] | w # ws \<Rightarrow> (c # w) # ws))"

text \<open>
  The first match of a pattern \<open>op ([^cl]+) cl\<close>, as \<open>/'([^']+)'/g\<close> and
  \<open>/\(([^)]+)\)/g\<close> are: the leftmost \<open>op\<close> that is followed by at least one character
  other than \<open>cl\<close> and then by \<open>cl\<close>. The value is the text between the two.
\<close>

fun first_enclosed :: "char \<Rightarrow> char \<Rightarrow> string \<Rightarrow> string option" where
  "first_enclosed op cl [] = None"
| "first_enclosed op cl (c # cs) =
     (if c = op \<and> takeWhile (\<lambda>x. x \<noteq> cl) cs \<noteq> [] \<and> dropWhile (\<lambda>x. x \<noteq> cl) cs \<noteq> []
      then Some (takeWhile (\<lambda>x. x \<noteq> cl) cs)
      else first_enclosed op cl cs)"

text \<open>
  \<open>line.match(/'([^']+)'/g)\<close> and then \<open>matches[0].replace(/'/g, '')\<close>: the text
  between the quotes of the first match, which holds no quote.
\<close>

definition first_quoted :: "string \<Rightarrow> string option" where
  "first_quoted line = first_enclosed (CHR 0x27) (CHR 0x27) line"

subsection \<open>parseFloat\<close>

definition digits_val :: "string \<Rightarrow> nat" where
  "digits_val ds = foldl (\<lambda>n c. 10 * n + (of_char c - 48)) 0 ds"

text \<open>The exponent part, if one follows the mantissa: \<open>e\<close> or \<open>E\<close>, a sign, digits.\<close>

definition exponent_of :: "string \<Rightarrow> int" where
  "exponent_of s =
     (case s of
        [] \<Rightarrow> 0
      | c # r \<Rightarrow>
          (if c = CHR ''e'' \<or> c = CHR ''E'' then
             (case r of
                [] \<Rightarrow> 0
              | d # ds \<Rightarrow>
                  (if d = CHR ''-'' then
                     (if takeWhile is_digit ds \<noteq> [] then - int (digits_val (takeWhile is_digit ds))
                      else 0)
                   else if d = CHR ''+'' then
                     (if takeWhile is_digit ds \<noteq> [] then int (digits_val (takeWhile is_digit ds))
                      else 0)
                   else int (digits_val (takeWhile is_digit (d # ds)))))
           else 0))"

text \<open>
  \<open>parseFloat(s)\<close>: leading white space is skipped, the longest prefix that is a decimal
  literal is read, and what follows it is ignored; \<open>NaN\<close> when there is no such prefix.
  The value of a finite literal is the real number it denotes.
\<close>

definition parseFloat :: "string \<Rightarrow> jsnum" where
  "parseFloat str =
     (let s = dropWhile is_space str;
          neg = (s \<noteq> [] \<and> hd s = CHR ''-'');
          s1 = (if s \<noteq> [] \<and> (hd s = CHR ''-'' \<or> hd s = CHR ''+'') then tl s else s)
      in if starts_with s1 ''Infinity'' then (if neg then NegInf else PosInf)
         else
           (let ip = takeWhile is_digit s1;
                r1 = dropWhile is_digit s1;
                dot = (r1 \<noteq> [] \<and> hd r1 = CHR ''.'');
                fp = (if dot then takeWhile is_digit (tl r1) else []);
                r2 = (if dot then dropWhile is_digit (tl r1) else r1)
            in if ip = [] \<and> fp = [] then NaN
               else
                 (let e = exponent_of r2;
                      m = real (digits_val (ip @ fp)) / 10 ^ length fp;
                      v = (if 0 \<le> e then m * 10 ^ nat e else m / 10 ^ nat (- e))
                  in Fin (if neg then - v else v))))"

section \<open>The material catalog\<close>

text \<open>
  A row of the table \<open>materials\<close>, typed by its schema: \<open>id\<close> is the integer primary
  key, \<open>name\<close>, \<open>category\<close>, \<open>density\<close> and \<open>cost_per_kg\<close> are \<open>NOT NULL\<close>, every
  other column may hold \<open>null\<close> (\<open>None\<close>).
\<close>

record material =
  id_col :: int
  name :: string
  category :: string
  density :: real
  cost_per_kg :: real
  tensile_strength :: "real option"
  yield_strength :: "real option"
  elastic_modulus :: "real option"
  thermal_expansion :: "real option"
  thermal_conductivity :: "real option"
  electrical_resistivity :: "real option"
  corrosion_resistance :: "string option"
  machinability :: "real option"
  weldability :: "real option"
  common_uses :: "string option"

text \<open>The value of a property read by its key, \<open>m[prop]\<close>.\<close>

datatype jsval = JNull | JUndefined | JNumber real | JString string

definition of_num :: "real option \<Rightarrow> jsval" where
  "of_num v = (case v of None \<Rightarrow> JNull | Some r \<Rightarrow> JNumber r)"

definition of_str :: "string option \<Rightarrow> jsval" where
  "of_str v = (case v of None \<Rightarrow> JNull | Some s \<Rightarrow> JString s)"

definition getProp :: "'a material_scheme \<Rightarrow> string \<Rightarrow> jsval" where
  "getProp m prop =
     (if prop = ''tensile_strength'' then of_num (tensile_strength m)
      else if prop = ''yield_strength'' then of_num (yield_strength m)
      else if prop = ''elastic_modulus'' then of_num (elastic_modulus m)
      else if prop = ''thermal_expansion'' then of_num (thermal_expansion m)
      else if prop = ''thermal_conductivity'' then of_num (thermal_conductivity m)
      else if prop = ''electrical_resistivity'' then of_num (electrical_resistivity m)
      else if prop = ''corrosion_resistance'' then of_str (corrosion_resistance m)
      else if prop = ''machinability'' then of_num (machinability m)
      else if prop = ''weldability'' then of_num (weldability m)
      else if prop = ''common_uses'' then of_str (common_uses m)
      else if prop = ''name'' then JString (name m)
      else if prop = ''category'' then JString (category m)
      else if prop = ''density'' then JNumber (density m)
      else if prop = ''cost_per_kg'' then JNumber (cost_per_kg m)
      else if prop = ''id'' then JNumber (real_of_int (id_col m))
      else JUndefined)"

section \<open>calculateSimilarityScore\<close>

definition properties :: "(string \<times> real) list" where
  "properties =
     [(''tensile_strength'', 10), (''yield_strength'', 10), (''elastic_modulus'', 8),
      (''thermal_expansion'', 5), (''thermal_conductivity'', 5),
      (''corrosion_resistance'', 7), (''machinability'', 6), (''weldability'', 5)]"

definition totalWeight :: real where
  "totalWeight = foldl (\<lambda>sum weight. sum + weight) 0 (map snd properties)"

text \<open>One round of the loop over \<open>properties\<close>: the score after the property.\<close>

definition scoreStep ::
  "'a material_scheme \<Rightarrow> 'b material_scheme \<Rightarrow> real \<Rightarrow> string \<times> real \<Rightarrow> real" where
  "scoreStep original alternative score pw =
     (case pw of (prop, weight) \<Rightarrow>
       (if getProp original prop \<noteq> JNull \<and> getProp alternative prop \<noteq> JNull then
          (case (getProp original prop, getProp alternative prop) of
             (JNumber a, JNumber b) \<Rightarrow>
               (let maxVal = max \<bar>a\<bar> \<bar>b\<bar> in
                if maxVal > 0 then
                  (let diff = \<bar>a - b\<bar> / maxVal;
                       propScore = (1 - min diff 1) * 100
                   in score + propScore * weight / totalWeight)
                else score + 100 * weight / totalWeight)
           | (JString a, JString b) \<Rightarrow>
               (if toLowerCase a = toLowerCase b then score + 100 * weight / totalWeight
                else score)
           | _ \<Rightarrow> score)
        else score))"

definition calculateSimilarityScore ::
  "'a material_scheme \<Rightarrow> 'b material_scheme \<Rightarrow> real" where
  "calculateSimilarityScore original alternative =
     (let score = foldl (scoreStep original alternative) 0 properties;
          score = (if category original = category alternative then score + 10 else score)
      in min score 100)"

section \<open>compareMaterials\<close>

text \<open>
  The \<open>dimensions\<close> argument as the function reads it: the object itself may be missing
  (\<open>None\<close>), and so may each of its three keys.
\<close>

record dims_obj =
  length_key :: "jsnum option"
  width_key :: "jsnum option"
  height_key :: "jsnum option"

text \<open>Truthiness of \<open>dimensions.length\<close>: a missing key reads \<open>undefined\<close>, which is falsy.\<close>

definition key_truthy :: "jsnum option \<Rightarrow> bool" where
  "key_truthy v = (case v of None \<Rightarrow> False | Some n \<Rightarrow> js_truthy n)"

text \<open>A \<open>Delta\<close>: the object stored under each key of the comparison.\<close>

record delta =
  original_val :: jsnum
  alternative_val :: jsnum
  difference :: jsnum
  percent_change :: jsnum

definition mechanicalProps :: "string list" where
  "mechanicalProps = [''tensile_strength'', ''yield_strength'', ''elastic_modulus'']"

text \<open>
  The volume the comparison is computed at: the product of the three dimensions if the
  object and its three keys are truthy, the default 1000 otherwise.
\<close>

definition comparisonVolume :: "dims_obj option \<Rightarrow> jsnum" where
  "comparisonVolume dimensions =
     (case dimensions of
        None \<Rightarrow> Fin 1000
      | Some d \<Rightarrow>
          (if key_truthy (length_key d) \<and> key_truthy (width_key d) \<and> key_truthy (height_key d)
           then js_mul (js_mul (the (length_key d)) (the (width_key d))) (the (height_key d))
           else Fin 1000))"

text \<open>
  One round of the loop over \<open>mechanicalProps\<close>. The three columns are \<open>REAL\<close>, so a
  value that is not \<open>null\<close> is a number and the last case is never taken.
\<close>

definition mechStep ::
  "'a material_scheme \<Rightarrow> 'b material_scheme \<Rightarrow> (string \<times> delta) list \<Rightarrow> string
     \<Rightarrow> (string \<times> delta) list" where
  "mechStep original alternative comparison prop =
     (if getProp original prop \<noteq> JNull \<and> getProp alternative prop \<noteq> JNull then
        (case (getProp original prop, getProp alternative prop) of
           (JNumber a, JNumber b) \<Rightarrow>
             (let diff = js_sub (Fin b) (Fin a);
                  diffPercent = (if js_sneq (Fin a) (Fin 0)
                                 then js_mul (js_div diff (Fin a)) (Fin 100) else Fin 0)
              in AList.update prop
                   \<lparr>original_val = Fin a, alternative_val = Fin b,
                    difference = diff, percent_change = diffPercent\<rparr> comparison)
         | _ \<Rightarrow> comparison)
      else comparison)"

text \<open>The body of \<open>compareMaterials\<close> once \<open>volume\<close> is set.\<close>

definition compareAtVolume ::
  "'a material_scheme \<Rightarrow> 'b material_scheme \<Rightarrow> jsnum \<Rightarrow> (string \<times> delta) list" where
  "compareAtVolume original alternative volume =
     (let comparison = [];
          originalWeight = js_div (js_mul (Fin (density original)) volume) (Fin 1000000);
          altWeight = js_div (js_mul (Fin (density alternative)) volume) (Fin 1000000);
          weightDiff = js_sub altWeight originalWeight;
          weightDiffPercent = (if js_sneq originalWeight (Fin 0)
                               then js_mul (js_div weightDiff originalWeight) (Fin 100)
                               else Fin 0);
          comparison = AList.update ''weight''
                         \<lparr>original_val = originalWeight, alternative_val = altWeight,
                          difference = weightDiff, percent_change = weightDiffPercent\<rparr>
                         comparison;
          originalCost = js_mul (Fin (cost_per_kg original)) originalWeight;
          altCost = js_mul (Fin (cost_per_kg alternative)) altWeight;
          costDiff = js_sub altCost originalCost;
          costDiffPercent = (if js_sneq originalCost (Fin 0)
                             then js_mul (js_div costDiff originalCost) (Fin 100)
                             else Fin 0);
          comparison = AList.update ''cost''
                         \<lparr>original_val = originalCost, alternative_val = altCost,
                          difference = costDiff, percent_change = costDiffPercent\<rparr>
                         comparison
      in foldl (mechStep original alternative) comparison mechanicalProps)"

definition compareMaterials ::
  "'a material_scheme \<Rightarrow> 'b material_scheme \<Rightarrow> dims_obj option \<Rightarrow> (string \<times> delta) list" where
  "compareMaterials original alternative dimensions =
     compareAtVolume original alternative (comparisonVolume dimensions)"

text \<open>
  The invariant of a \<open>Delta\<close> as the data model states it: the difference is alternative
  minus original, the percent change is \<open>difference / original * 100\<close> unless
  \<open>original\<close> is 0, and 0 then.
\<close>

definition delta_invariant :: "delta \<Rightarrow> bool" where
  "delta_invariant d =
     (difference d = js_sub (alternative_val d) (original_val d) \<and>
      percent_change d =
        (if original_val d = Fin 0 then Fin 0
         else js_mul (js_div (difference d) (original_val d)) (Fin 100)))"

text \<open>A dimension that is present and not zero, in the words of the fallback rule.\<close>

definition present_nonzero :: "jsnum option \<Rightarrow> bool" where
  "present_nonzero v = (v \<noteq> None \<and> v \<noteq> Some (Fin 0))"

section \<open>Array.prototype.sort\<close>

text \<open>
  \<open>xs.sort(cmp)\<close> is stable; the element \<open>x\<close> goes before \<open>y\<close> when \<open>cmp(x, y) < 0\<close>, and
  a comparator result of \<open>NaN\<close> counts as 0. The model inserts the elements one by one,
  each after the elements it does not go before. With a comparator that is not consistent
  (one that returns \<open>NaN\<close>) the language leaves the order to the implementation.
\<close>

fun sort_insert :: "('a \<Rightarrow> 'a \<Rightarrow> jsnum) \<Rightarrow> 'a \<Rightarrow> 'a list \<Rightarrow> 'a list" where
  "sort_insert cmp x [] = [x]"
| "sort_insert cmp x (y # ys) =
     (if js_lt (cmp x y) (Fin 0) then x # y # ys else y # sort_insert cmp x ys)"

definition js_sort :: "('a \<Rightarrow> 'a \<Rightarrow> jsnum) \<Rightarrow> 'a list \<Rightarrow> 'a list" where
  "js_sort cmp xs = foldl (\<lambda>sorted x. sort_insert cmp x sorted) [] xs"

section \<open>The database\<close>

datatype error = Error string

text \<open>
  The table \<open>materials\<close> in row order, and the error, if any, that each of the two kinds
  of query (\<open>db.get\<close>, \<open>db.all\<close>) calls back with.
\<close>

record database =
  rows :: "material list"
  get_err :: "error option"
  all_err :: "error option"

text \<open>\<open>db.get("SELECT ... FROM materials WHERE name = ?")\<close>: the first row of that name.\<close>

definition db_get_by_name :: "database \<Rightarrow> string \<Rightarrow> error + material option" where
  "db_get_by_name db materialName =
     (case get_err db of
        Some err \<Rightarrow> Inl err
      | None \<Rightarrow> Inr (find (\<lambda>row. name row = materialName) (rows db)))"

text \<open>\<open>db.all("SELECT * FROM materials WHERE id != ?")\<close>.\<close>

definition db_all_except_id :: "database \<Rightarrow> int \<Rightarrow> error + material list" where
  "db_all_except_id db i =
     (case all_err db of
        Some err \<Rightarrow> Inl err
      | None \<Rightarrow> Inr (filter (\<lambda>row. id_col row \<noteq> i) (rows db)))"

section \<open>findAlternatives\<close>

record scored = material +
  similarity_score :: real

record alternative_result = scored +
  comparison :: "(string \<times> delta) list"

definition with_score :: "material \<Rightarrow> real \<Rightarrow> scored" where
  "with_score material score = material.extend material (scored.fields score)"

definition with_comparison :: "scored \<Rightarrow> (string \<times> delta) list \<Rightarrow> alternative_result" where
  "with_comparison alt c = scored.extend alt (alternative_result.fields c)"

definition scoredAlternatives :: "material \<Rightarrow> material list \<Rightarrow> scored list" where
  "scoredAlternatives originalMaterial materials =
     js_sort (\<lambda>a b. Fin (similarity_score b - similarity_score a))
       (map (\<lambda>material.
               with_score material (calculateSimilarityScore originalMaterial material))
            materials)"

definition findAlternatives ::
  "database \<Rightarrow> string \<Rightarrow> dims_obj option \<Rightarrow> error + alternative_result list" where
  "findAlternatives db materialName dimensions =
     (case db_get_by_name db materialName of
        Inl err \<Rightarrow> Inl err
      | Inr None \<Rightarrow> Inr []
      | Inr (Some originalMaterial) \<Rightarrow>
          (case db_all_except_id db (id_col originalMaterial) of
             Inl err \<Rightarrow> Inl err
           | Inr materials \<Rightarrow>
               (let topAlternatives = take 5 (scoredAlternatives originalMaterial materials)
                in Inr (map (\<lambda>alt. with_comparison alt
                                     (compareMaterials originalMaterial alt dimensions))
                          topAlternatives))))"

section \<open>calculateWeight\<close>

text \<open>
  The \<open>volume\<close> argument: a number, or a string as a request body can hold. On a number
  \<open>parseFloat\<close> reads back the number it prints.
\<close>

datatype volume_arg = VNumber jsnum | VString string

fun parseFloat_arg :: "volume_arg \<Rightarrow> jsnum" where
  "parseFloat_arg (VNumber n) = n"
| "parseFloat_arg (VString s) = parseFloat s"

definition calculateWeight :: "database \<Rightarrow> string \<Rightarrow> volume_arg \<Rightarrow> error + jsnum" where
  "calculateWeight db materialName volume_in =
     (let volume = parseFloat_arg volume_in
      in if volume = NaN then Inl (Error ''Invalid volume value'')
         else if js_le volume (Fin 0) then Inl (Error ''Volume must be greater than zero'')
         else
           (case db_get_by_name db materialName of
              Inl err \<Rightarrow> Inl err
            | Inr None \<Rightarrow> Inr (js_div (js_mul (Fin 7.85) volume) (Fin 1000000))
            | Inr (Some row) \<Rightarrow> Inr (js_div (js_mul (Fin (density row)) volume) (Fin 1000000))))"

section \<open>parseStepFile\<close>

text \<open>The bounding box: two arrays of three numbers.\<close>

record bbox =
  bb_min :: "jsnum list"
  bb_max :: "jsnum list"

record scan_state =
  fileContent :: string
  productName :: string
  materialInfo :: string
  boundingBox :: bbox
  cartesianPoints :: "jsnum list list"
  annotations :: "string list"
  circles :: "jsnum list"

definition initial_state :: scan_state where
  "initial_state =
     \<lparr>fileContent = [], productName = [], materialInfo = [],
      boundingBox = \<lparr>bb_min = [PosInf, PosInf, PosInf], bb_max = [NegInf, NegInf, NegInf]\<rparr>,
      cartesianPoints = [], annotations = [], circles = []\<rparr>"

text \<open>The five extractions of the \<open>line\<close> handler, in its order.\<close>

definition extractProductName :: "string \<Rightarrow> scan_state \<Rightarrow> scan_state" where
  "extractProductName line st =
     (if js_includes line ''PRODUCT'' \<and> js_includes line [CHR 0x27] \<and> productName st = [] then
        (case first_quoted line of
           Some q \<Rightarrow> st\<lparr>productName := q\<rparr>
         | None \<Rightarrow> st)
      else st)"

text \<open>The second keyword is \<open>mat\<close>, the two bytes of e-acute in UTF-8, \<open>riau\<close>.\<close>

definition extractMaterialInfo :: "string \<Rightarrow> scan_state \<Rightarrow> scan_state" where
  "extractMaterialInfo line st =
     (if (js_includes (toLowerCase line) ''material'' \<or>
          js_includes (toLowerCase line) (''mat'' @ [CHR 0xC3, CHR 0xA9] @ ''riau'')) \<and>
         js_includes line [CHR 0x27] \<and> materialInfo st = [] then
        (case first_quoted line of
           Some q \<Rightarrow> st\<lparr>materialInfo := q\<rparr>
         | None \<Rightarrow> st)
      else st)"

definition extractAnnotation :: "string \<Rightarrow> scan_state \<Rightarrow> scan_state" where
  "extractAnnotation line st =
     (if js_includes line ''ANNOTATION'' \<or> js_includes line ''NOTE'' \<or>
         js_includes line ''REMARK'' then
        (case first_quoted line of
           Some q \<Rightarrow> st\<lparr>annotations := annotations st @ [q]\<rparr>
         | None \<Rightarrow> st)
      else st)"

text \<open>
  The array \<open>coords\<close> of a line, if the line holds the marker and a parenthesised group:
  the group without its parentheses, split at the commas, each part trimmed and parsed.
\<close>

definition lineCoords :: "string \<Rightarrow> jsnum list option" where
  "lineCoords line =
     (if js_includes line ''CARTESIAN_POINT'' then
        (case first_enclosed (CHR ''('') (CHR '')'') line of
           Some body \<Rightarrow>
             (let coordStr = filter (\<lambda>c. c \<noteq> CHR ''('' \<and> c \<noteq> CHR '')'') body
              in Some (map (\<lambda>c. parseFloat (trim c)) (split_on (CHR '','') coordStr)))
         | None \<Rightarrow> None)
      else None)"

definition updateBox :: "bbox \<Rightarrow> jsnum list \<Rightarrow> bbox" where
  "updateBox box coords =
     \<lparr>bb_min = [Math_min (bb_min box ! 0) (coords ! 0), Math_min (bb_min box ! 1) (coords ! 1),
                Math_min (bb_min box ! 2) (coords ! 2)],
      bb_max = [Math_max (bb_max box ! 0) (coords ! 0), Math_max (bb_max box ! 1) (coords ! 1),
                Math_max (bb_max box ! 2) (coords ! 2)]\<rparr>"

definition extractPoint :: "string \<Rightarrow> scan_state \<Rightarrow> scan_state" where
  "extractPoint line st =
     (case lineCoords line of
        Some coords \<Rightarrow>
          (if 3 \<le> length coords then
             st\<lparr>cartesianPoints := cartesianPoints st @ [coords],
                boundingBox := updateBox (boundingBox st) coords\<rparr>
           else st)
      | None \<Rightarrow> st)"

text \<open>
  \<open>/CIRCLE\s*\([^)]*\)\s*,\s*([0-9.]+)/\<close> tried where the text starts with \<open>CIRCLE\<close>:
  the captured group. No part of the pattern can give back what it took, so one pass
  decides.
\<close>

definition is_radius_char :: "char \<Rightarrow> bool" where
  "is_radius_char c = (is_digit c \<or> c = CHR ''.'')"

definition circle_match_here :: "string \<Rightarrow> string option" where
  "circle_match_here s =
     (case dropWhile is_space (drop 6 s) of
        [] \<Rightarrow> None
      | c1 # r1 \<Rightarrow>
          (if c1 = CHR ''('' then
             (case dropWhile (\<lambda>x. x \<noteq> CHR '')'') r1 of
                [] \<Rightarrow> None
              | c2 # r2 \<Rightarrow>
                  (case dropWhile is_space r2 of
                     [] \<Rightarrow> None
                   | c3 # r3 \<Rightarrow>
                       (if c3 = CHR '','' then
                          (let cap = takeWhile is_radius_char (dropWhile is_space r3)
                           in if cap \<noteq> [] then Some cap else None)
                        else None)))
           else None))"

fun circle_match :: "string \<Rightarrow> string option" where
  "circle_match [] = None"
| "circle_match (c # cs) =
     (if starts_with (c # cs) ''CIRCLE'' then
        (case circle_match_here (c # cs) of
           Some cap \<Rightarrow> Some cap
         | None \<Rightarrow> circle_match cs)
      else circle_match cs)"

definition extractCircle :: "string \<Rightarrow> scan_state \<Rightarrow> scan_state" where
  "extractCircle line st =
     (if js_includes line ''CIRCLE'' then
        (case circle_match line of
           Some cap \<Rightarrow> st\<lparr>circles := circles st @ [parseFloat cap]\<rparr>
         | None \<Rightarrow> st)
      else st)"

text \<open>The handler of the \<open>line\<close> event.\<close>

definition processLine :: "scan_state \<Rightarrow> string \<Rightarrow> scan_state" where
  "processLine st line =
     extractCircle line
       (extractPoint line
         (extractAnnotation line
           (extractMaterialInfo line
             (extractProductName line
               (st\<lparr>fileContent := fileContent st @ line @ [CHR 0x0A]\<rparr>)))))"

definition scan :: "string list \<Rightarrow> scan_state" where
  "scan ls = foldl processLine initial_state ls"

text \<open>The handler of the \<open>close\<close> event: the dimensions, then the material.\<close>

record dimensions =
  length_d :: jsnum
  width_d :: jsnum
  height_d :: jsnum

text \<open>\<open>[length, width, height].sort((a, b) => b - a)\<close> on the extents of the box.\<close>

definition sortedExtents :: "bbox \<Rightarrow> jsnum list" where
  "sortedExtents box =
     js_sort (\<lambda>a b. js_sub b a)
       [Math_abs (js_sub (bb_max box ! 0) (bb_min box ! 0)),
        Math_abs (js_sub (bb_max box ! 1) (bb_min box ! 1)),
        Math_abs (js_sub (bb_max box ! 2) (bb_min box ! 2))]"

definition closeDimensions :: "scan_state \<Rightarrow> dimensions" where
  "closeDimensions st =
     (if js_sneq (bb_min (boundingBox st) ! 0) PosInf \<and>
         js_sneq (bb_max (boundingBox st) ! 0) NegInf then
        (let dims = sortedExtents (boundingBox st);
             dimensions = \<lparr>length_d = dims ! 0, width_d = dims ! 1, height_d = dims ! 2\<rparr>
         in if circles st \<noteq> [] \<and> js_includes (toLowerCase (productName st)) ''rondelle'' then
              (let largestRadius = Math_max_spread (circles st);
                   dimensions = dimensions\<lparr>length_d := js_mul largestRadius (Fin 2),
                                           width_d := js_mul largestRadius (Fin 2)\<rparr>
               in if js_includes (productName st) ''Rondelleintercloche'' then
                    \<lparr>length_d = Fin 30, width_d = Fin 30, height_d = Fin 5\<rparr>
                  else dimensions)
            else dimensions)
      else \<lparr>length_d = Fin 30, width_d = Fin 30, height_d = Fin 5\<rparr>)"

definition closeMaterial :: "scan_state \<Rightarrow> string" where
  "closeMaterial st =
     (if materialInfo st \<noteq> [] then materialInfo st
      else if js_includes (toLowerCase (fileContent st)) ''acier'' then ''AISI 1018 Steel''
      else if js_includes (toLowerCase (fileContent st)) ''aluminium'' \<or>
              js_includes (toLowerCase (fileContent st)) ''aluminum'' then ''Aluminum 6061-T6''
      else if js_includes (toLowerCase (fileContent st)) ''titanium'' \<or>
              js_includes (toLowerCase (fileContent st)) ''titane'' then ''Ti-6Al-4V''
      else ''AISI 1018 Steel'')"

record step_data =
  sd_productName :: string
  sd_dimensions :: dimensions
  sd_material :: string
  sd_annotations :: "string list"
  sd_boundingBox :: bbox
  sd_cartesianPoints :: "jsnum list list"
  sd_circles :: "jsnum list"

definition onClose :: "scan_state \<Rightarrow> step_data" where
  "onClose st =
     \<lparr>sd_productName = productName st, sd_dimensions = closeDimensions st,
      sd_material = closeMaterial st, sd_annotations = annotations st,
      sd_boundingBox = boundingBox st, sd_cartesianPoints = cartesianPoints st,
      sd_circles = circles st\<rparr>"

text \<open>
  The input stream: the lines it delivers, and how it ends, closed or with a read error.
  The promise is rejected with the error, resolved with the data of the scan otherwise.
\<close>

datatype stream_end = Closed | ReadError error

definition parseStepFile :: "string list \<Rightarrow> stream_end \<Rightarrow> error + step_data" where
  "parseStepFile ls e =
     (case e of
        ReadError err \<Rightarrow> Inl err
      | Closed \<Rightarrow> Inr (onClose (scan ls)))"


section \<open>Predicates of the statements\<close>




section \<open>Example rows\<close>

text \<open>Three of the rows \<open>insertDefaultMaterials\<close> inserts, with the keys they get.\<close>

definition AISI_1018_Steel :: material where
  "AISI_1018_Steel =
     \<lparr>id_col = 1, name = ''AISI 1018 Steel'', category = ''Steel'', density = 7.87,
      cost_per_kg = 1.2, tensile_strength = Some 440, yield_strength = Some 370,
      elastic_modulus = Some 205, thermal_expansion = Some 11.5,
      thermal_conductivity = Some 51.9, electrical_resistivity = Some 15.9,
      corrosion_resistance = Some ''Low'', machinability = Some 70, weldability = Some 90,
      common_uses = Some ''General purpose, shafts, pins''\<rparr>"

definition Aluminum_6061_T6 :: material where
  "Aluminum_6061_T6 =
     \<lparr>id_col = 5, name = ''Aluminum 6061-T6'', category = ''Aluminum'', density = 2.7,
      cost_per_kg = 3.5, tensile_strength = Some 310, yield_strength = Some 276,
      elastic_modulus = Some 68.9, thermal_expansion = Some 23.6,
      thermal_conductivity = Some 167, electrical_resistivity = Some 3.7,
      corrosion_resistance = Some ''Medium'', machinability = Some 85, weldability = Some 50,
      common_uses = Some ''Structural components, frames''\<rparr>"

definition Ti_6Al_4V :: material where
  "Ti_6Al_4V =
     \<lparr>id_col = 15, name = ''Ti-6Al-4V'', category = ''Titanium'', density = 4.43,
      cost_per_kg = 35.0, tensile_strength = Some 950, yield_strength = Some 880,
      elastic_modulus = Some 113.8, thermal_expansion = Some 8.6,
      thermal_conductivity = Some 6.7, electrical_resistivity = Some 170.0,
      corrosion_resistance = Some ''Very High'', machinability = Some 30, weldability = Some 40,
      common_uses = Some ''Aerospace, medical implants''\<rparr>"

text \<open>A row with every nullable column \<open>null\<close>, and a small catalog of such rows.\<close>

definition bare_row :: "int \<Rightarrow> string \<Rightarrow> string \<Rightarrow> material" where
  "bare_row i n c =
     \<lparr>id_col = i, name = n, category = c, density = 1, cost_per_kg = 1,
      tensile_strength = None, yield_strength = None, elastic_modulus = None,
      thermal_expansion = None, thermal_conductivity = None, electrical_resistivity = None,
      corrosion_resistance = None, machinability = None, weldability = None,
      common_uses = None\<rparr>"

definition small_catalog :: database where
  "small_catalog =
     \<lparr>rows = [bare_row 1 ''R'' ''Steel'', bare_row 2 ''A'' ''Copper'',
              bare_row 3 ''B'' ''Steel'', bare_row 4 ''C'' ''Copper'',
              bare_row 5 ''D'' ''Steel'', bare_row 6 ''E'' ''Copper'',
              bare_row 7 ''F'' ''Steel'', bare_row 8 ''G'' ''Steel''],
      get_err = None, all_err = None\<rparr>"

section \<open>Theorems\<close>

lemmas score_eval = calculateSimilarityScore_def scoreStep_def properties_def getProp_def
  of_num_def of_str_def totalWeight_def toLowerCase_def lower_char_def Let_def

lemmas compare_eval = compareMaterials_def compareAtVolume_def comparisonVolume_def
  mechStep_def mechanicalProps_def getProp_def of_num_def of_str_def js_sub_def js_sneq_def
  js_seq_def key_truthy_def Let_def

lemma totalWeight_56: "totalWeight = 56"
  by (simp add: totalWeight_def properties_def)

lemma scoreStep_lower:
  assumes "0 \<le> s" and "0 \<le> snd pw"
  shows "s \<le> scoreStep original alternative s pw"
proof -
  obtain p weight where pw: "pw = (p, weight)" by (cases pw)
  have w: "0 \<le> weight" using assms(2) pw by simp
  have num: "0 \<le> (1 - min (\<bar>a - b\<bar> / max \<bar>a\<bar> \<bar>b\<bar>) 1) * 100 * weight / 56" for a b :: real
  proof -
    have "0 \<le> 1 - min (\<bar>a - b\<bar> / max \<bar>a\<bar> \<bar>b\<bar>) 1" by simp
    then show ?thesis using w by simp
  qed
  have full: "0 \<le> 100 * weight / 56" using w by simp
  show ?thesis
    using num full
    by (auto simp: scoreStep_def pw totalWeight_56 Let_def split: jsval.splits)
qed

lemma foldl_scoreStep_lower:
  "0 \<le> s \<Longrightarrow> \<forall>pw \<in> set ps. 0 \<le> snd pw \<Longrightarrow> 0 \<le> foldl (scoreStep original alternative) s ps"
proof (induction ps arbitrary: s)
  case Nil
  then show ?case by simp
next
  case (Cons pw ps)
  have "s \<le> scoreStep original alternative s pw"
    using Cons.prems by (intro scoreStep_lower) auto
  then have "0 \<le> scoreStep original alternative s pw" using Cons.prems(1) by linarith
  then show ?case using Cons by simp
qed

text \<open>
  C7: the similarity score of any two material records lies between 0 and 100: no round
  of the loop lowers the score, and the result is capped at 100 after the category bonus.
\<close>

theorem calculateSimilarityScore_bounds:
  "0 \<le> calculateSimilarityScore original alternative \<and>
   calculateSimilarityScore original alternative \<le> 100"
proof -
  have "0 \<le> foldl (scoreStep original alternative) 0 properties"
    by (rule foldl_scoreStep_lower) (auto simp: properties_def)
  then show ?thesis
    by (simp add: calculateSimilarityScore_def Let_def)
qed

subsection \<open>The comparison\<close>

lemma js_sneq_zero: "js_sneq a (Fin 0) = (a \<noteq> Fin 0)"
  by (auto simp: js_sneq_def js_seq_def)

lemma set_update_subset: "set (AList.update k v al) \<subseteq> insert (k, v) (set al)"
  by (induction al) auto

lemma mechStep_invariant:
  assumes "\<forall>e \<in> set c. delta_invariant (snd e)"
  shows "\<forall>e \<in> set (mechStep original alternative c p). delta_invariant (snd e)"
proof -
  have new: "delta_invariant \<lparr>original_val = Fin a, alternative_val = Fin b,
      difference = js_sub (Fin b) (Fin a),
      percent_change = (if js_sneq (Fin a) (Fin 0)
          then js_mul (js_div (js_sub (Fin b) (Fin a)) (Fin a)) (Fin 100) else Fin 0)\<rparr>" for a b
    by (simp add: delta_invariant_def js_sneq_zero)
  show ?thesis
    using assms new set_update_subset
    by (fastforce simp: mechStep_def Let_def split: jsval.splits)
qed

lemma foldl_mechStep_invariant:
  "\<forall>e \<in> set c. delta_invariant (snd e) \<Longrightarrow>
   \<forall>e \<in> set (foldl (mechStep original alternative) c ps). delta_invariant (snd e)"
proof (induction ps arbitrary: c)
  case Nil
  then show ?case by simp
next
  case (Cons p ps)
  show ?case
    using Cons.IH [OF mechStep_invariant [OF Cons.prems]] by simp
qed

lemma compareAtVolume_invariant:
  "\<forall>e \<in> set (compareAtVolume original alternative volume). delta_invariant (snd e)"
  unfolding compareAtVolume_def Let_def
  by (rule foldl_mechStep_invariant) (simp add: delta_invariant_def js_sneq_zero)

text \<open>
  C6: every Delta \<open>d\<close> stored in the comparison, under whichever key \<open>k\<close>, has
  \<open>difference = alternative - original\<close>; its percent change is
  \<open>difference / original * 100\<close> when \<open>original\<close> is not 0 and the number 0, neither
  \<open>NaN\<close> nor an infinity, when \<open>original\<close> is 0.
\<close>

theorem compareMaterials_delta:
  assumes "(k, d) \<in> set (compareMaterials original alternative dimensions)"
  shows "difference d = js_sub (alternative_val d) (original_val d) \<and>
         percent_change d =
           (if original_val d = Fin 0 then Fin 0
            else js_mul (js_div (difference d) (original_val d)) (Fin 100))"
proof -
  have "delta_invariant (snd (k, d))"
    using assms compareAtVolume_invariant unfolding compareMaterials_def by blast
  then show ?thesis by (simp add: delta_invariant_def)
qed

theorem compareMaterials_delta_witness:
  "(''tensile_strength'',
    \<lparr>original_val = Fin 0, alternative_val = Fin 5, difference = Fin 5,
     percent_change = Fin 0\<rparr>)
     \<in> set (compareMaterials ((bare_row 1 ''R'' ''Steel'')\<lparr>tensile_strength := Some 0\<rparr>)
              ((bare_row 2 ''A'' ''Steel'')\<lparr>tensile_strength := Some 5\<rparr>) None) \<and>
   (''weight'',
    \<lparr>original_val = Fin (787 / 100000), alternative_val = Fin (27 / 10000),
     difference = Fin (- (517 / 100000)), percent_change = Fin (- (51700 / 787))\<rparr>)
     \<in> set (compareMaterials AISI_1018_Steel Aluminum_6061_T6 None) \<and>
   Fin 5 = js_sub (Fin 5) (Fin 0) \<and>
   Fin (- (517 / 100000)) = js_sub (Fin (27 / 10000)) (Fin (787 / 100000)) \<and>
   Fin (- (51700 / 787)) = js_mul (js_div (Fin (- (517 / 100000))) (Fin (787 / 100000))) (Fin 100)"
proof -
  have h1: "(''tensile_strength'',
    \<lparr>original_val = Fin 0, alternative_val = Fin 5, difference = Fin 5,
     percent_change = Fin 0\<rparr>)
     \<in> set (compareMaterials ((bare_row 1 ''R'' ''Steel'')\<lparr>tensile_strength := Some 0\<rparr>)
              ((bare_row 2 ''A'' ''Steel'')\<lparr>tensile_strength := Some 5\<rparr>) None)"
    by (simp add: compare_eval bare_row_def)
  have h2: "(''weight'',
    \<lparr>original_val = Fin (787 / 100000), alternative_val = Fin (27 / 10000),
     difference = Fin (- (517 / 100000)), percent_change = Fin (- (51700 / 787))\<rparr>)
     \<in> set (compareMaterials AISI_1018_Steel Aluminum_6061_T6 None)"
    by (simp add: compare_eval AISI_1018_Steel_def Aluminum_6061_T6_def)
  show ?thesis
    using h1 h2 compareMaterials_delta [OF h1] compareMaterials_delta [OF h2]
    by (simp add: js_sub_def)
qed

subsection \<open>The comparison volume, the ranking\<close>

lemma js_truthy_iff: "js_truthy n = (n \<noteq> Fin 0 \<and> n \<noteq> NaN)"
  by (cases n) auto

text \<open>
  C10, as the code has it: when the three dimensions are present and each is neither 0
  nor \<open>NaN\<close>, the comparison is computed at \<open>length * width * height\<close>; when the
  object is missing, or one of the three is absent, 0 or \<open>NaN\<close>, it is computed at the
  default volume 1000. No case is rejected: the function returns a comparison in each.
\<close>

theorem compareMaterials_volume:
  "(length_key d = Some l \<and> width_key d = Some w \<and> height_key d = Some h \<and>
      l \<noteq> Fin 0 \<and> l \<noteq> NaN \<and> w \<noteq> Fin 0 \<and> w \<noteq> NaN \<and> h \<noteq> Fin 0 \<and> h \<noteq> NaN \<longrightarrow>
      compareMaterials original alternative (Some d) =
        compareAtVolume original alternative (js_mul (js_mul l w) h)) \<and>
   (length_key d \<in> {None, Some (Fin 0), Some NaN} \<or>
    width_key d \<in> {None, Some (Fin 0), Some NaN} \<or>
    height_key d \<in> {None, Some (Fin 0), Some NaN} \<longrightarrow>
      compareMaterials original alternative (Some d) =
        compareAtVolume original alternative (Fin 1000)) \<and>
   compareMaterials original alternative None = compareAtVolume original alternative (Fin 1000)"
  by (auto simp: compareMaterials_def comparisonVolume_def key_truthy_def js_truthy_iff)

lemma find_no_name:
  "\<forall>row \<in> set rs. name row \<noteq> n \<Longrightarrow> find (\<lambda>row. name row = n) rs = None"
  by (simp add: find_None_iff)

text \<open>
  C9: when the lookup of the reference succeeds and no row of the catalog has the
  requested name, \<open>findAlternatives\<close> resolves with the empty list, not with an error.
\<close>

theorem findAlternatives_unknown_reference:
  assumes "get_err db = None" and "\<forall>row \<in> set (rows db). name row \<noteq> materialName"
  shows "findAlternatives db materialName dimensions = Inr []"
  using assms by (simp add: findAlternatives_def db_get_by_name_def find_no_name)


lemma set_sort_insert: "set (sort_insert cmp x ys) = insert x (set ys)"
  by (induction ys) auto

lemma sort_insert_sorted:
  "sorted_wrt (\<lambda>a b. similarity_score b \<le> similarity_score a) ys \<Longrightarrow> sorted_wrt (\<lambda>a b. similarity_score b \<le> similarity_score a) (sort_insert (\<lambda>a b. Fin (similarity_score b - similarity_score a)) x ys)"
  by (induction ys) (auto simp: set_sort_insert)

lemma foldl_sort_insert_sorted:
  "sorted_wrt (\<lambda>a b. similarity_score b \<le> similarity_score a) acc \<Longrightarrow> sorted_wrt (\<lambda>a b. similarity_score b \<le> similarity_score a) (foldl (\<lambda>sorted x. sort_insert (\<lambda>a b. Fin (similarity_score b - similarity_score a)) x sorted) acc xs)"
  by (induction xs arbitrary: acc) (auto simp: sort_insert_sorted)

lemma js_sort_sorted: "sorted_wrt (\<lambda>a b. similarity_score b \<le> similarity_score a) (js_sort (\<lambda>a b. Fin (similarity_score b - similarity_score a)) xs)"
  by (simp add: js_sort_def foldl_sort_insert_sorted)

lemma filter_sort_insert:
  "sorted_wrt (\<lambda>a b. similarity_score b \<le> similarity_score a) ys \<Longrightarrow>
   filter (\<lambda>a. similarity_score a = s) (sort_insert (\<lambda>a b. Fin (similarity_score b - similarity_score a)) x ys) =
   filter (\<lambda>a. similarity_score a = s) ys @ (if similarity_score x = s then [x] else [])"
proof (induction ys)
  case Nil
  then show ?case by simp
next
  case (Cons y ys)
  show ?case
  proof (cases "similarity_score y < similarity_score x")
    case True
    then have "\<forall>z \<in> set (y # ys). similarity_score z < similarity_score x"
      using Cons.prems by auto
    then have "similarity_score x = s \<Longrightarrow> filter (\<lambda>a. similarity_score a = s) (y # ys) = []"
      by (auto simp: filter_empty_conv)
    then show ?thesis using True by auto
  next
    case False
    then show ?thesis using Cons by auto
  qed
qed

lemma filter_foldl_sort_insert:
  "sorted_wrt (\<lambda>a b. similarity_score b \<le> similarity_score a) acc \<Longrightarrow>
   filter (\<lambda>a. similarity_score a = s) (foldl (\<lambda>sorted x. sort_insert (\<lambda>a b. Fin (similarity_score b - similarity_score a)) x sorted) acc xs) =
   filter (\<lambda>a. similarity_score a = s) acc @ filter (\<lambda>a. similarity_score a = s) xs"
  by (induction xs arbitrary: acc) (auto simp: sort_insert_sorted filter_sort_insert)

lemma js_sort_stable:
  "filter (\<lambda>a. similarity_score a = s) (js_sort (\<lambda>a b. Fin (similarity_score b - similarity_score a)) xs) = filter (\<lambda>a. similarity_score a = s) xs"
  by (simp add: js_sort_def filter_foldl_sort_insert)

lemma set_foldl_sort_insert:
  "set (foldl (\<lambda>sorted x. sort_insert cmp x sorted) acc xs) = set acc \<union> set xs"
  by (induction xs arbitrary: acc) (auto simp: set_sort_insert)

lemma set_js_sort: "set (js_sort cmp xs) = set xs"
  by (simp add: js_sort_def set_foldl_sort_insert)

lemma length_sort_insert: "length (sort_insert cmp x ys) = Suc (length ys)"
  by (induction ys) auto

lemma length_foldl_sort_insert:
  "length (foldl (\<lambda>sorted x. sort_insert cmp x sorted) acc xs) = length acc + length xs"
  by (induction xs arbitrary: acc) (auto simp: length_sort_insert)

lemma length_js_sort: "length (js_sort cmp xs) = length xs"
  by (simp add: js_sort_def length_foldl_sort_insert)

lemma with_score_sel:
  "similarity_score (with_score m s) = s" "id_col (with_score m s) = id_col m"
  "material.truncate (with_score m s) = m"
  by (simp_all add: with_score_def material.defs scored.defs)

lemma with_comparison_sel:
  "similarity_score (with_comparison a c) = similarity_score a"
  "id_col (with_comparison a c) = id_col a"
  "comparison (with_comparison a c) = c"
  "scored.truncate (with_comparison a c) = a"
  by (simp_all add: with_comparison_def material.defs scored.defs alternative_result.defs)

lemma scoredAlternatives_ids:
  "a \<in> set (scoredAlternatives orig ms) \<Longrightarrow> \<exists>m \<in> set ms. id_col a = id_col m"
  by (auto simp: scoredAlternatives_def set_js_sort with_score_sel)


text \<open>
  C8: when both queries succeed and the reference is found, \<open>findAlternatives\<close>
  resolves with a list \<open>result\<close> that is the first five entries of the ranked
  candidates, each with its comparison added. The ranked candidates are the rows whose
  \<open>id\<close> differs from the reference's, in descending order of similarity score, and
  those of any one score \<open>s\<close> are in the order of the catalog. So \<open>result\<close> has at
  most five entries, is in descending order of score, and no entry has the \<open>id\<close> of
  the reference.
\<close>

theorem findAlternatives_ranking:
  assumes "get_err db = None" and "all_err db = None"
      and "find (\<lambda>row. name row = materialName) (rows db) = Some originalMaterial"
  shows "\<exists>result.
           findAlternatives db materialName dimensions = Inr result \<and>
           map scored.truncate result =
             take 5 (scoredAlternatives originalMaterial
                       (filter (\<lambda>row. id_col row \<noteq> id_col originalMaterial) (rows db))) \<and>
           length result \<le> 5 \<and>
           sorted_wrt (\<lambda>a b. similarity_score b \<le> similarity_score a) result \<and>
           (\<forall>alt \<in> set result. id_col alt \<noteq> id_col originalMaterial) \<and>
           sorted_wrt (\<lambda>a b. similarity_score b \<le> similarity_score a)
             (scoredAlternatives originalMaterial
                (filter (\<lambda>row. id_col row \<noteq> id_col originalMaterial) (rows db))) \<and>
           (\<forall>s. filter (\<lambda>a. similarity_score a = s)
                  (scoredAlternatives originalMaterial
                     (filter (\<lambda>row. id_col row \<noteq> id_col originalMaterial) (rows db))) =
                filter (\<lambda>a. similarity_score a = s)
                  (map (\<lambda>m. with_score m (calculateSimilarityScore originalMaterial m))
                     (filter (\<lambda>row. id_col row \<noteq> id_col originalMaterial) (rows db))))"
proof -
  define candidates where
    "candidates = filter (\<lambda>row. id_col row \<noteq> id_col originalMaterial) (rows db)"
  define ranked where "ranked = scoredAlternatives originalMaterial candidates"
  define result where
    "result = map (\<lambda>alt. with_comparison alt (compareMaterials originalMaterial alt dimensions))
                (take 5 ranked)"
  have res: "findAlternatives db materialName dimensions = Inr result"
    using assms
    by (simp add: findAlternatives_def db_get_by_name_def db_all_except_id_def result_def
        ranked_def candidates_def)
  have 1: "sorted_wrt (\<lambda>a b. similarity_score b \<le> similarity_score a) ranked"
    by (simp add: ranked_def scoredAlternatives_def js_sort_sorted)
  have 2: "filter (\<lambda>a. similarity_score a = s) ranked =
           filter (\<lambda>a. similarity_score a = s)
             (map (\<lambda>m. with_score m (calculateSimilarityScore originalMaterial m)) candidates)"
    for s
    by (simp add: ranked_def scoredAlternatives_def js_sort_stable)
  have 3: "map scored.truncate result = take 5 ranked"
    by (simp add: result_def with_comparison_sel o_def)
  have 4: "length result \<le> 5" by (simp add: result_def)
  have 5: "id_col alt \<noteq> id_col originalMaterial" if "alt \<in> set result" for alt
  proof -
    from that obtain a where a: "a \<in> set (take 5 ranked)" and eq: "id_col alt = id_col a"
      by (auto simp: result_def with_comparison_sel)
    from a have "a \<in> set ranked" by (rule in_set_takeD)
    then obtain m where "m \<in> set candidates" "id_col a = id_col m"
      using scoredAlternatives_ids unfolding ranked_def by blast
    then show ?thesis using eq by (simp add: candidates_def)
  qed
  have 6: "sorted_wrt (\<lambda>a b. similarity_score b \<le> similarity_score a) result"
    unfolding result_def
    by (simp add: sorted_wrt_map with_comparison_sel sorted_wrt_take 1)
  show ?thesis
    using res 1 2 3 4 5 6 unfolding ranked_def candidates_def by blast
qed

lemma bare_score:
  "calculateSimilarityScore (bare_row i n c) (bare_row j m d) = (if c = d then 10 else 0)"
  by (simp add: score_eval bare_row_def)

theorem findAlternatives_ranking_witness:
  "get_err small_catalog = None \<and> all_err small_catalog = None \<and>
   find (\<lambda>row. name row = ''R'') (rows small_catalog) = Some (bare_row 1 ''R'' ''Steel'') \<and>
   (\<exists>result.
      findAlternatives small_catalog ''R'' None = Inr result \<and>
      map id_col result = [3, 5, 7, 8, 2] \<and>
      map similarity_score result = [10, 10, 10, 10, 0] \<and>
      length result \<le> 5 \<and>
      sorted_wrt (\<lambda>a b. similarity_score b \<le> similarity_score a) result \<and>
      (\<forall>alt \<in> set result. id_col alt \<noteq> 1))"
proof -
  have h1: "get_err small_catalog = None" and h2: "all_err small_catalog = None"
    by (simp_all add: small_catalog_def)
  have h3: "find (\<lambda>row. name row = ''R'') (rows small_catalog) = Some (bare_row 1 ''R'' ''Steel'')"
    by (simp add: small_catalog_def bare_row_def)
  have ranked: "map id_col (take 5 (scoredAlternatives (bare_row 1 ''R'' ''Steel'')
         (filter (\<lambda>row. id_col row \<noteq> id_col (bare_row 1 ''R'' ''Steel'')) (rows small_catalog))))
       = [3, 5, 7, 8, 2]"
    "map similarity_score (take 5 (scoredAlternatives (bare_row 1 ''R'' ''Steel'')
         (filter (\<lambda>row. id_col row \<noteq> id_col (bare_row 1 ''R'' ''Steel'')) (rows small_catalog))))
       = [10, 10, 10, 10, 0]"
    by (simp_all add: small_catalog_def scoredAlternatives_def js_sort_def bare_score with_score_sel)
       (simp_all add: bare_row_def)
  have sel: "map id_col (map scored.truncate r) = map id_col r"
            "map similarity_score (map scored.truncate r) = map similarity_score r"
    for r :: "alternative_result list"
    by (simp_all add: scored.defs material.defs)
  obtain result where r: "findAlternatives small_catalog ''R'' None = Inr result"
     "map scored.truncate result = take 5 (scoredAlternatives (bare_row 1 ''R'' ''Steel'')
         (filter (\<lambda>row. id_col row \<noteq> id_col (bare_row 1 ''R'' ''Steel'')) (rows small_catalog)))"
     "length result \<le> 5" "sorted_wrt (\<lambda>a b. similarity_score b \<le> similarity_score a) result"
     "\<forall>alt \<in> set result. id_col alt \<noteq> id_col (bare_row 1 ''R'' ''Steel'')"
    using findAlternatives_ranking [OF h1 h2 h3, of None] by blast
  have "map id_col result = [3, 5, 7, 8, 2]" "map similarity_score result = [10, 10, 10, 10, 0]"
    using ranked sel [of result] r(2) by simp_all
  moreover have "\<forall>alt \<in> set result. id_col alt \<noteq> 1" using r(5) by (simp add: bare_row_def)
  ultimately show ?thesis using h1 h2 h3 r(1,3,4) by (auto intro!: exI [of _ result])
qed

theorem findAlternatives_unknown_reference_witness:
  "get_err small_catalog = None \<and>
   ''Unobtainium'' \<notin> set (map name (rows small_catalog)) \<and>
   findAlternatives small_catalog ''Unobtainium'' None = Inr []"
proof -
  have h1: "get_err small_catalog = None" by (simp add: small_catalog_def)
  have h2: "\<forall>row \<in> set (rows small_catalog). name row \<noteq> ''Unobtainium''"
    by (simp add: small_catalog_def bare_row_def)
  have h3: "''Unobtainium'' \<notin> set (map name (rows small_catalog))"
    by (simp add: small_catalog_def bare_row_def)
  show ?thesis using h1 h3 findAlternatives_unknown_reference [OF h1 h2, of None] by simp
qed

text \<open>
  C10 as stated fails for a dimension that is \<open>NaN\<close>: it is present and not zero, yet
  the comparison is computed at the default volume 1000, not at the product.
\<close>

theorem compareMaterials_nan_dimension_counterexample:
  "present_nonzero (Some NaN) \<and> present_nonzero (Some (Fin 2)) \<and> present_nonzero (Some (Fin 3)) \<and>
   comparisonVolume
     (Some \<lparr>length_key = Some NaN, width_key = Some (Fin 2), height_key = Some (Fin 3)\<rparr>) =
   Fin 1000 \<and>
   js_mul (js_mul NaN (Fin 2)) (Fin 3) = NaN \<and>
   compareMaterials AISI_1018_Steel Aluminum_6061_T6
     (Some \<lparr>length_key = Some NaN, width_key = Some (Fin 2), height_key = Some (Fin 3)\<rparr>) =
   compareAtVolume AISI_1018_Steel Aluminum_6061_T6 (Fin 1000) \<and>
   compareAtVolume AISI_1018_Steel Aluminum_6061_T6 (Fin 1000) \<noteq>
   compareAtVolume AISI_1018_Steel Aluminum_6061_T6 (js_mul (js_mul NaN (Fin 2)) (Fin 3))"
  by (simp add: present_nonzero_def compare_eval AISI_1018_Steel_def Aluminum_6061_T6_def)

theorem compareMaterials_volume_witness:
  "compareMaterials AISI_1018_Steel Aluminum_6061_T6
     (Some \<lparr>length_key = Some (Fin 30), width_key = Some (Fin 30), height_key = Some (Fin 5)\<rparr>) =
   compareAtVolume AISI_1018_Steel Aluminum_6061_T6 (Fin 4500) \<and>
   compareMaterials AISI_1018_Steel Aluminum_6061_T6
     (Some \<lparr>length_key = Some (Fin 30), width_key = Some (Fin 0), height_key = None\<rparr>) =
   compareAtVolume AISI_1018_Steel Aluminum_6061_T6 (Fin 1000)"
  using compareMaterials_volume [of "\<lparr>length_key = Some (Fin 30), width_key = Some (Fin 30), height_key = Some (Fin 5)\<rparr>"
      "Fin 30" "Fin 30" "Fin 5" AISI_1018_Steel Aluminum_6061_T6]
    compareMaterials_volume [of "\<lparr>length_key = Some (Fin 30), width_key = Some (Fin 0), height_key = None\<rparr>"
      "Fin 30" "Fin 0" "Fin 0" AISI_1018_Steel Aluminum_6061_T6]
  by simp

subsection \<open>The scan\<close>

lemmas extract_defs = extractProductName_def extractMaterialInfo_def extractAnnotation_def
  extractPoint_def extractCircle_def


lemma processLine_points:
  "boundingBox (processLine st line) =
     (case lineCoords line of
        Some coords \<Rightarrow> if 3 \<le> length coords then updateBox (boundingBox st) coords else boundingBox st
      | None \<Rightarrow> boundingBox st)"
  "cartesianPoints (processLine st line) =
     (case lineCoords line of
        Some coords \<Rightarrow> if 3 \<le> length coords then cartesianPoints st @ [coords] else cartesianPoints st
      | None \<Rightarrow> cartesianPoints st)"
  by (simp_all add: processLine_def extract_defs split: option.splits)




















lemma parseStepFile_completes:
  "parseStepFile ls Closed = Inr (onClose (scan ls))"
  "parseStepFile ls (ReadError err) = Inl err"
  by (simp_all add: parseStepFile_def)

lemma extractPoint_few_tokens:
  assumes "lineCoords line = Some coords" and "length coords < 3"
  shows "boundingBox (processLine st line) = boundingBox st \<and>
         cartesianPoints (processLine st line) = cartesianPoints st"
  using assms by (simp add: processLine_points)



text \<open>
  C5, as the code has it. \<open>calculateWeight\<close> rejects a volume that \<open>parseFloat\<close> reads
  as \<open>NaN\<close>, and one that is at most 0, whatever the database is, so before any lookup
  or computation. \<open>compareMaterials\<close> takes dimensions, not a volume, and rejects
  nothing: with a dimension that is 0 it computes at the default volume 1000.
\<close>

theorem calculateWeight_rejects:
  "(parseFloat_arg volume = NaN \<longrightarrow>
      calculateWeight db materialName volume = Inl (Error ''Invalid volume value'')) \<and>
   (parseFloat_arg volume \<noteq> NaN \<and> js_le (parseFloat_arg volume) (Fin 0) \<longrightarrow>
      calculateWeight db materialName volume = Inl (Error ''Volume must be greater than zero'')) \<and>
   (length_key d = Some (Fin 0) \<or> width_key d = Some (Fin 0) \<or> height_key d = Some (Fin 0) \<longrightarrow>
      compareMaterials original alternative (Some d) =
        compareAtVolume original alternative (Fin 1000))"
  by (auto simp: calculateWeight_def Let_def compareMaterials_def comparisonVolume_def
      key_truthy_def)









text \<open>
  C4 at the failing inputs. A point line whose first token is not numeric has three
  tokens or more, so it is not skipped: \<open>NaN\<close> enters the bounding box that the line
  before had set. The usual form of a point line of the exchange format, with a quoted
  name before the coordinates, is such a line.
\<close>

theorem processLine_non_numeric_point:
  "boundingBox (scan [''#10=CARTESIAN_POINT(1.,2.,3.);'']) =
     \<lparr>bb_min = [Fin 1, Fin 2, Fin 3], bb_max = [Fin 1, Fin 2, Fin 3]\<rparr> \<and>
   lineCoords ''#11=CARTESIAN_POINT(x,5.,6.);'' = Some [NaN, Fin 5, Fin 6] \<and>
   boundingBox (scan [''#10=CARTESIAN_POINT(1.,2.,3.);'', ''#11=CARTESIAN_POINT(x,5.,6.);'']) =
     \<lparr>bb_min = [NaN, Fin 2, Fin 3], bb_max = [NaN, Fin 5, Fin 6]\<rparr> \<and>
   lineCoords (''#12=CARTESIAN_POINT('' @ [CHR 0x27, CHR 0x27] @ '',(0.,0.,5.));'') =
     Some [NaN, Fin 0, Fin 0, Fin 5] \<and>
   boundingBox (scan [''#12=CARTESIAN_POINT('' @ [CHR 0x27, CHR 0x27] @ '',(0.,0.,5.));'']) =
     \<lparr>bb_min = [NaN, Fin 0, Fin 0], bb_max = [NaN, Fin 0, Fin 0]\<rparr>"
  by code_simp

text \<open>
  C5 as stated fails for the comparison: with a dimension 0 the volume is 0, and the
  comparison is computed, at the volume 1000.
\<close>

theorem calculateWeight_rejects_counterexample:
  "comparisonVolume
     (Some \<lparr>length_key = Some (Fin 0), width_key = Some (Fin 10), height_key = Some (Fin 10)\<rparr>) =
     Fin 1000 \<and>
   js_mul (js_mul (Fin 0) (Fin 10)) (Fin 10) = Fin 0 \<and>
   compareMaterials AISI_1018_Steel Aluminum_6061_T6
     (Some \<lparr>length_key = Some (Fin 0), width_key = Some (Fin 10), height_key = Some (Fin 10)\<rparr>) =
     [(''weight'',
       \<lparr>original_val = Fin (787 / 100000), alternative_val = Fin (27 / 10000),
        difference = Fin (- (517 / 100000)), percent_change = Fin (- (51700 / 787))\<rparr>),
      (''cost'',
       \<lparr>original_val = Fin (2361 / 250000), alternative_val = Fin (189 / 20000),
        difference = Fin (3 / 500000), percent_change = Fin (50 / 787)\<rparr>),
      (''tensile_strength'',
       \<lparr>original_val = Fin 440, alternative_val = Fin 310,
        difference = Fin (- 130), percent_change = Fin (- (325 / 11))\<rparr>),
      (''yield_strength'',
       \<lparr>original_val = Fin 370, alternative_val = Fin 276,
        difference = Fin (- 94), percent_change = Fin (- (940 / 37))\<rparr>),
      (''elastic_modulus'',
       \<lparr>original_val = Fin 205, alternative_val = Fin (689 / 10),
        difference = Fin (- (1361 / 10)), percent_change = Fin (- (2722 / 41))\<rparr>)]"
  by (simp add: compare_eval AISI_1018_Steel_def Aluminum_6061_T6_def)

theorem calculateWeight_rejects_witness:
  "parseFloat_arg (VString ''abc'') = NaN \<and>
   calculateWeight small_catalog ''R'' (VString ''abc'') = Inl (Error ''Invalid volume value'') \<and>
   js_le (parseFloat_arg (VNumber (Fin 0))) (Fin 0) \<and>
   calculateWeight small_catalog ''R'' (VNumber (Fin 0)) =
     Inl (Error ''Volume must be greater than zero'') \<and>
   compareMaterials AISI_1018_Steel Aluminum_6061_T6
     (Some \<lparr>length_key = Some (Fin 0), width_key = Some (Fin 10), height_key = Some (Fin 10)\<rparr>) =
     compareAtVolume AISI_1018_Steel Aluminum_6061_T6 (Fin 1000)"
proof -
  have h1: "parseFloat_arg (VString ''abc'') = NaN" by code_simp
  have h2: "js_le (parseFloat_arg (VNumber (Fin 0))) (Fin 0)"
    by (simp add: js_le_def js_seq_def)
  show ?thesis
    using h1 h2
      calculateWeight_rejects [of "VString ''abc''" small_catalog "''R''"
        "\<lparr>length_key = Some (Fin 0), width_key = Some (Fin 10), height_key = Some (Fin 10)\<rparr>"
        AISI_1018_Steel Aluminum_6061_T6]
      calculateWeight_rejects [of "VNumber (Fin 0)" small_catalog "''R''"
        "\<lparr>length_key = Some (Fin 0), width_key = Some (Fin 10), height_key = Some (Fin 10)\<rparr>"
        AISI_1018_Steel Aluminum_6061_T6]
    by simp
qed

end
